theory Spec2Isabelle
  imports Complex_Main "HOL-Library.Sublist"
begin

section \<open>Vectors and vertices\<close>

text \<open>
  The program computes with \<^verbatim>\<open>float\<close> and \<^verbatim>\<open>double\<close>. Here every floating-point
  quantity is a real number and every floating-point operation is the exact operation on
  the reals; a decimal literal stands for its exact decimal value. Where the program
  would produce an infinity or a NaN (division by a zero scale factor or by a zero
  resolution, \<^verbatim>\<open>pow\<close> of 0 to a negative exponent, normalising the zero vector) the reals
  have no counterpart, and the value the model has there (\<open>x / 0 = 0\<close> in HOL) carries no
  meaning.

  C++ \<^verbatim>\<open>int\<close> values are mathematical integers: signed overflow is undefined in C++, so
  the two agree on every run on which the program's behaviour is defined. For the
  generator that is the case when the number of vertices fits an \<^verbatim>\<open>int\<close> (lemma
  \<open>indices_fit_int\<close> below).
\<close>

datatype vec2 = Vec2 (tx: real) (ty: real)

datatype vec3 = Vec3 (vx: real) (vy: real) (vz: real)

text \<open>\<^verbatim>\<open>glm::vec3\<close> operators: \<^verbatim>\<open>v + w\<close>, \<^verbatim>\<open>v * s\<close>, \<^verbatim>\<open>glm::dot\<close>, \<^verbatim>\<open>glm::length\<close>,
  \<^verbatim>\<open>glm::normalize\<close> (which is \<^verbatim>\<open>v * inversesqrt(dot(v, v))\<close>).\<close>

definition vec3_add :: "vec3 \<Rightarrow> vec3 \<Rightarrow> vec3" where
  "vec3_add v w = Vec3 (vx v + vx w) (vy v + vy w) (vz v + vz w)"

definition vec3_scale :: "vec3 \<Rightarrow> real \<Rightarrow> vec3" where
  "vec3_scale v s = Vec3 (vx v * s) (vy v * s) (vz v * s)"

definition dot :: "vec3 \<Rightarrow> vec3 \<Rightarrow> real" where
  "dot v w = vx v * vx w + vy v * vy w + vz v * vz w"

definition vec3_length :: "vec3 \<Rightarrow> real" where
  "vec3_length v = sqrt (dot v v)"

definition normalize :: "vec3 \<Rightarrow> vec3" where
  "normalize v = vec3_scale v (1 / sqrt (dot v v))"

text \<open>The two members of the \<^verbatim>\<open>Camera\<close> class (\<^verbatim>\<open>learnopengl/camera.h\<close>) that this
  program reads.\<close>

record Camera =
  Position :: vec3
  Front :: vec3

text \<open>\<^verbatim>\<open>struct Vertex\<close>\<close>

record Vertex =
  Position :: vec3
  Normal :: vec3
  TexCoords :: vec2

section \<open>The surface generator\<close>

text \<open>\<^verbatim>\<open>#define M_PI 3.14159265358979323846\<close>\<close>

definition M_PI :: real where
  "M_PI = 3.14159265358979323846"

text \<open>The lambda \<^verbatim>\<open>sgn\<close> of the generator: \<^verbatim>\<open>(x < 0) ? -1.0f : 1.0f\<close>. It is \<open>1\<close> at
  \<open>0\<close>, unlike the sign function of HOL.\<close>

definition sgn_f :: "real \<Rightarrow> real" where
  "sgn_f x = (if x < 0 then - 1 else 1)"

text \<open>\<^verbatim>\<open>std::pow\<close> on a base that is not negative (the generator only calls it on an
  absolute value): \<open>pow(0, 0) = 1\<close> and \<open>pow(0, y) = 0\<close> for \<open>y > 0\<close>. For \<open>y < 0\<close> the
  program's \<open>pow(0, y)\<close> is \<open>+inf\<close>, which is no real number; the value \<open>0\<close> given here
  for that case carries no meaning. A negative base does not occur.\<close>

definition std_pow :: "real \<Rightarrow> real \<Rightarrow> real" where
  "std_pow x y = (if x = 0 then (if y = 0 then 1 else 0) else x powr y)"

text \<open>The lambda \<^verbatim>\<open>powe\<close>: \<^verbatim>\<open>sgn(base) * std::pow(std::abs(base), exp)\<close>.\<close>

definition powe :: "real \<Rightarrow> real \<Rightarrow> real" where
  "powe base e = sgn_f base * std_pow \<bar>base\<bar> e"

text \<open>The latitude \<^verbatim>\<open>u\<close> computed at the head of the outer loop,
  \<^verbatim>\<open>-M_PI / 2.0f + (float)i / stacks * M_PI\<close>.\<close>

definition stack_angle :: "int \<Rightarrow> int \<Rightarrow> real" where
  "stack_angle stacks i = - M_PI / 2 + real_of_int i / real_of_int stacks * M_PI"

text \<open>The longitude \<^verbatim>\<open>v\<close> computed at the head of the inner loop,
  \<^verbatim>\<open>-M_PI + (float)j / slices * 2.0f * M_PI\<close>.\<close>

definition slice_angle :: "int \<Rightarrow> int \<Rightarrow> real" where
  "slice_angle slices j = - M_PI + real_of_int j / real_of_int slices * 2 * M_PI"

text \<open>The body of the inner vertex loop: the vertex pushed for the counters \<open>i\<close>, \<open>j\<close>
  and the latitude \<open>u\<close> of the current row.\<close>

definition grid_vertex ::
  "real \<Rightarrow> real \<Rightarrow> real \<Rightarrow> real \<Rightarrow> real \<Rightarrow> int \<Rightarrow> int \<Rightarrow> int \<Rightarrow> real \<Rightarrow> int \<Rightarrow> Vertex" where
  "grid_vertex a b c n1 n2 stacks slices i u j =
     (let v = slice_angle slices j;
          cu = cos u; su = sin u;
          cv = cos v; sv = sin v;
          x = a * powe cu n1 * powe cv n2;
          y = b * powe cu n1 * powe sv n2;
          z = c * powe su n1;
          pos = Vec3 x y z;
          n = normalize (Vec3 (x / (a * a)) (y / (b * b)) (z / (c * c)));
          tex = Vec2 (real_of_int j / real_of_int slices) (real_of_int i / real_of_int stacks)
      in \<lparr>Position = pos, Normal = n, TexCoords = tex\<rparr>)"

text \<open>\<^verbatim>\<open>for (int j = 0; j <= slices; j++) { ...; vertices.push_back({pos, n, tex}); }\<close>\<close>

function vertex_loop_j ::
  "real \<Rightarrow> real \<Rightarrow> real \<Rightarrow> real \<Rightarrow> real \<Rightarrow> int \<Rightarrow> int \<Rightarrow> int \<Rightarrow> real \<Rightarrow> int \<Rightarrow> Vertex list
     \<Rightarrow> Vertex list" where
  "vertex_loop_j a b c n1 n2 stacks slices i u j vertices =
     (if j \<le> slices
      then vertex_loop_j a b c n1 n2 stacks slices i u (j + 1)
             (vertices @ [grid_vertex a b c n1 n2 stacks slices i u j])
      else vertices)"
  by pat_completeness auto
termination
  by (relation "measure (\<lambda>(a, b, c, n1, n2, stacks, slices, i, u, j, vertices).
        nat (slices + 1 - j))") auto

declare vertex_loop_j.simps [simp del]

text \<open>\<^verbatim>\<open>for (int i = 0; i <= stacks; i++) { float u = ...; for (int j ...) ... }\<close>\<close>

function vertex_loop_i ::
  "real \<Rightarrow> real \<Rightarrow> real \<Rightarrow> real \<Rightarrow> real \<Rightarrow> int \<Rightarrow> int \<Rightarrow> int \<Rightarrow> Vertex list \<Rightarrow> Vertex list" where
  "vertex_loop_i a b c n1 n2 stacks slices i vertices =
     (if i \<le> stacks
      then vertex_loop_i a b c n1 n2 stacks slices (i + 1)
             (vertex_loop_j a b c n1 n2 stacks slices i (stack_angle stacks i) 0 vertices)
      else vertices)"
  by pat_completeness auto
termination
  by (relation "measure (\<lambda>(a, b, c, n1, n2, stacks, slices, i, vertices).
        nat (stacks + 1 - i))") auto

declare vertex_loop_i.simps [simp del]

text \<open>The vertices that one pass of the outer loop pushes, as a list (used to state what the
  loops compute).\<close>

definition vertex_row ::
  "real \<Rightarrow> real \<Rightarrow> real \<Rightarrow> real \<Rightarrow> real \<Rightarrow> int \<Rightarrow> int \<Rightarrow> int \<Rightarrow> Vertex list" where
  "vertex_row a b c n1 n2 stacks slices i =
     map (grid_vertex a b c n1 n2 stacks slices i (stack_angle stacks i)) [0..slices]"

text \<open>The six \<^verbatim>\<open>indices.push_back\<close> calls of one grid cell.\<close>

definition cell_indices :: "int \<Rightarrow> int \<Rightarrow> int \<Rightarrow> int list" where
  "cell_indices slices i j =
     (let first = i * (slices + 1) + j;
          second = first + slices + 1
      in [first, second, first + 1, second, second + 1, first + 1])"

text \<open>\<^verbatim>\<open>for (int j = 0; j < slices; j++) { ... six push_back ... }\<close>\<close>

function index_loop_j :: "int \<Rightarrow> int \<Rightarrow> int \<Rightarrow> int list \<Rightarrow> int list" where
  "index_loop_j slices i j indices =
     (if j < slices
      then index_loop_j slices i (j + 1) (indices @ cell_indices slices i j)
      else indices)"
  by pat_completeness auto
termination
  by (relation "measure (\<lambda>(slices, i, j, indices). nat (slices - j))") auto

declare index_loop_j.simps [simp del]

text \<open>\<^verbatim>\<open>for (int i = 0; i < stacks; i++) { for (int j ...) ... }\<close>\<close>

function index_loop_i :: "int \<Rightarrow> int \<Rightarrow> int \<Rightarrow> int list \<Rightarrow> int list" where
  "index_loop_i stacks slices i indices =
     (if i < stacks
      then index_loop_i stacks slices (i + 1) (index_loop_j slices i 0 indices)
      else indices)"
  by pat_completeness auto
termination
  by (relation "measure (\<lambda>(stacks, slices, i, indices). nat (stacks - i))") auto

declare index_loop_i.simps [simp del]

text \<open>
  \<^verbatim>\<open>generateSuperellipsoid(vertices, indices, a, b, c, n1, n2, stacks, slices)\<close>. The two
  vectors are passed by reference: the arguments \<open>vertices\<close> and \<open>indices\<close> are their
  contents at the call, the result is their contents at the return. The function first
  clears both. The elements of \<^verbatim>\<open>indices\<close> are \<^verbatim>\<open>unsigned int\<close>; the values pushed are
  \<^verbatim>\<open>int\<close>s that are not negative, which the conversion leaves as they are.
\<close>

definition generateSuperellipsoid ::
  "Vertex list \<Rightarrow> int list \<Rightarrow> real \<Rightarrow> real \<Rightarrow> real \<Rightarrow> real \<Rightarrow> real \<Rightarrow> int \<Rightarrow> int
     \<Rightarrow> Vertex list \<times> int list" where
  "generateSuperellipsoid vertices indices a b c n1 n2 stacks slices =
     (let vertices = [];
          indices = [];
          vertices = vertex_loop_i a b c n1 n2 stacks slices 0 vertices;
          indices = index_loop_i stacks slices 0 indices
      in (vertices, indices))"

section \<open>Morph parameters\<close>

text \<open>The two exponents computed in the frame loop from \<^verbatim>\<open>float t = glfwGetTime()\<close>:
  \<^verbatim>\<open>0.2f + 1.8f * (std::sin(t * 1.2f) * 0.5f + 0.5f)\<close> and
  \<^verbatim>\<open>0.2f + 1.8f * (std::cos(t * 0.8f) * 0.5f + 0.5f)\<close>.\<close>

definition morph_n1 :: "real \<Rightarrow> real" where
  "morph_n1 t = 0.2 + 1.8 * (sin (t * 1.2) * 0.5 + 0.5)"

definition morph_n2 :: "real \<Rightarrow> real" where
  "morph_n2 t = 0.2 + 1.8 * (cos (t * 0.8) * 0.5 + 0.5)"

section \<open>Program state, input and spawning\<close>

text \<open>What is written to \<^verbatim>\<open>std::cout\<close>: a line is the list of the items streamed into it
  before \<^verbatim>\<open>std::endl\<close>.\<close>

datatype cout_item = Str string | Num real

type_synonym cout_line = "cout_item list"

text \<open>A draw of the shared mesh with \<^verbatim>\<open>glDrawElements\<close>: the model matrix is kept as the
  arguments of \<^verbatim>\<open>glm::translate\<close>, \<^verbatim>\<open>glm::rotate\<close> (about the y axis) and
  \<^verbatim>\<open>glm::scale\<close> that build it, with the number of indices drawn.\<close>

record DrawCall =
  translation :: vec3
  rotation :: real
  scaling :: real
  index_count :: nat

text \<open>
  The global variables of the program that the claims are about, with the locals of
  \<^verbatim>\<open>main\<close> that live across frames. \<open>windowShouldClose\<close> is the flag behind
  \<^verbatim>\<open>glfwWindowShouldClose\<close>, \<open>cout\<close> the lines printed so far.
\<close>

record program_state =
  camera :: Camera
  deltaTime :: real
  lastFrame :: real
  spawnedSuperellipsoids :: "vec3 list"
  e_pressed_last_frame :: bool
  windowShouldClose :: bool
  cout :: "cout_line list"
  superellipsoidVertices :: "Vertex list"
  superellipsoidIndices :: "int list"
  diffuseMap :: nat

datatype Camera_Movement = FORWARD | BACKWARD | LEFT | RIGHT

text \<open>For each key the program polls, whether \<^verbatim>\<open>glfwGetKey(window, key) == GLFW_PRESS\<close>
  holds in this call of \<^verbatim>\<open>processInput\<close>.\<close>

record key_state =
  KEY_ESCAPE :: bool
  KEY_W :: bool
  KEY_S :: bool
  KEY_A :: bool
  KEY_D :: bool
  KEY_E :: bool

text \<open>
  \<^verbatim>\<open>processInput(window)\<close>. \<^verbatim>\<open>Camera::ProcessKeyboard\<close> is not part of this file and is
  the parameter \<open>ProcessKeyboard\<close>.
\<close>

definition processInput ::
  "(Camera_Movement \<Rightarrow> real \<Rightarrow> Camera \<Rightarrow> Camera) \<Rightarrow> key_state \<Rightarrow> program_state
     \<Rightarrow> program_state" where
  "processInput ProcessKeyboard window st =
     (let st = (if KEY_ESCAPE window then st\<lparr>windowShouldClose := True\<rparr> else st);
          st = (if KEY_W window
                then st\<lparr>camera := ProcessKeyboard FORWARD (deltaTime st) (camera st)\<rparr> else st);
          st = (if KEY_S window
                then st\<lparr>camera := ProcessKeyboard BACKWARD (deltaTime st) (camera st)\<rparr> else st);
          st = (if KEY_A window
                then st\<lparr>camera := ProcessKeyboard LEFT (deltaTime st) (camera st)\<rparr> else st);
          st = (if KEY_D window
                then st\<lparr>camera := ProcessKeyboard RIGHT (deltaTime st) (camera st)\<rparr> else st);
          e_is_pressed = KEY_E window;
          st = (if e_is_pressed \<and> \<not> e_pressed_last_frame st
                then (let spawn_pos =
                            vec3_add (Camera.Position (camera st))
                              (vec3_scale (Front (camera st)) 2)
                      in st\<lparr>spawnedSuperellipsoids := spawnedSuperellipsoids st @ [spawn_pos],
                            cout := cout st @
                              [[Str ''Superellipsoid spawned at: ('', Num (vx spawn_pos),
                                Str '', '', Num (vy spawn_pos), Str '', '', Num (vz spawn_pos),
                                Str '')'']]\<rparr>)
                else st)
      in st\<lparr>e_pressed_last_frame := e_is_pressed\<rparr>)"

section \<open>Texture loading\<close>





section \<open>The frame loop\<close>

text \<open>
  What the environment supplies to one pass of the render loop: the clock readings
  (\<open>currentFrame\<close> at the top of the frame, \<open>morph_time\<close> for \<^verbatim>\<open>float t\<close>, and
  \<open>spawn_clock k\<close> inside the \<open>k\<close>-th pass of the loop over the spawned objects), the
  keys, and what \<^verbatim>\<open>glfwPollEvents\<close> does at the end of the frame: the mouse and scroll
  callbacks change the camera (\<open>polled_camera\<close>) and the window may get a close request.
\<close>

record frame_input =
  currentFrame :: real
  keys :: key_state
  morph_time :: real
  spawn_clock :: "nat \<Rightarrow> real"
  polled_camera :: "Camera \<Rightarrow> Camera"
  close_requested :: bool

text \<open>What one frame shows: the texture bound to unit 0 and the draws of the shared mesh,
  the morphing object first.\<close>

record frame_output =
  bound_texture :: nat
  draws :: "DrawCall list"

text \<open>\<^verbatim>\<open>for (const auto& position : spawnedSuperellipsoids) { ... glDrawElements ... }\<close>;
  \<open>k\<close> counts the passes and \<open>n\<close> is \<^verbatim>\<open>superellipsoidIndices.size()\<close>.\<close>

primrec draw_spawned :: "(nat \<Rightarrow> real) \<Rightarrow> nat \<Rightarrow> nat \<Rightarrow> vec3 list \<Rightarrow> DrawCall list" where
  "draw_spawned glfwGetTime k n [] = []"
| "draw_spawned glfwGetTime k n (position # rest) =
     \<lparr>translation = position, rotation = glfwGetTime k * 0.2, scaling = 0.5,
      index_count = n\<rparr> # draw_spawned glfwGetTime (Suc k) n rest"

text \<open>
  The body of \<^verbatim>\<open>while (!glfwWindowShouldClose(window))\<close>. Uniform uploads, buffer
  uploads and the draws of the four lamp cubes read the state and leave it as it is; they
  are not part of the output kept here. The morphing object is drawn at the origin with
  scale 1.
\<close>

definition frame ::
  "(Camera_Movement \<Rightarrow> real \<Rightarrow> Camera \<Rightarrow> Camera) \<Rightarrow> frame_input \<Rightarrow> program_state
     \<Rightarrow> program_state \<times> frame_output" where
  "frame ProcessKeyboard inp st =
     (let st = st\<lparr>deltaTime := currentFrame inp - lastFrame st,
                   lastFrame := currentFrame inp\<rparr>;
          st = processInput ProcessKeyboard (keys inp) st;
          t = morph_time inp;
          n1 = morph_n1 t;
          n2 = morph_n2 t;
          (vertices, indices) =
             generateSuperellipsoid (superellipsoidVertices st) (superellipsoidIndices st)
               1 1 1 n1 n2 64 64;
          st = st\<lparr>superellipsoidVertices := vertices, superellipsoidIndices := indices\<rparr>;
          primary = \<lparr>translation = Vec3 0 0 0, rotation = t * 0.5, scaling = 1,
                     index_count = length indices\<rparr>;
          spawned = draw_spawned (spawn_clock inp) 0 (length indices)
                      (spawnedSuperellipsoids st);
          shown = \<lparr>bound_texture = diffuseMap st, draws = primary # spawned\<rparr>;
          st = st\<lparr>camera := polled_camera inp (camera st),
                   windowShouldClose := (windowShouldClose st \<or> close_requested inp)\<rparr>
      in (st, shown))"

text \<open>The render loop over the frames the environment supplies; it stops when the close
  flag is found set at the head of a pass.\<close>

fun render_loop ::
  "(Camera_Movement \<Rightarrow> real \<Rightarrow> Camera \<Rightarrow> Camera) \<Rightarrow> frame_input list \<Rightarrow> program_state
     \<Rightarrow> frame_output list \<Rightarrow> program_state \<times> frame_output list" where
  "render_loop ProcessKeyboard [] st shown = (st, shown)"
| "render_loop ProcessKeyboard (inp # rest) st shown =
     (if windowShouldClose st then (st, shown)
      else (let (st', out) = frame ProcessKeyboard inp st
            in render_loop ProcessKeyboard rest st' (shown @ [out])))"



section \<open>Sampling the spawn key\<close>

text \<open>The spawn position in the specification's words: camera position plus camera
  forward direction times 2.\<close>

definition spawn_pos :: "Camera \<Rightarrow> vec3" where
  "spawn_pos cam = vec3_add (Camera.Position cam) (vec3_scale (Front cam) 2)"

text \<open>
  A run of calls of \<open>processInput\<close>. Between two calls the rest of the program writes
  \<open>camera\<close> (the mouse and scroll callbacks) and \<open>deltaTime\<close> (the head of the frame), and
  nothing else of what \<open>processInput\<close> reads; a sample is the key state of a call with the
  camera and \<open>deltaTime\<close> in effect when it starts.
\<close>

fun feed_samples ::
  "(Camera_Movement \<Rightarrow> real \<Rightarrow> Camera \<Rightarrow> Camera) \<Rightarrow> (key_state \<times> Camera \<times> real) list
     \<Rightarrow> program_state \<Rightarrow> program_state" where
  "feed_samples ProcessKeyboard [] st = st"
| "feed_samples ProcessKeyboard ((window, cam, dt) # rest) st =
     feed_samples ProcessKeyboard rest
       (processInput ProcessKeyboard window (st\<lparr>camera := cam, deltaTime := dt\<rparr>))"

text \<open>Example values: a key state with only the spawn key down or up, and the globals as
  their initialisers leave them, for a camera \<open>cam\<close> (the mesh vectors still empty).\<close>

definition spawn_key :: "bool \<Rightarrow> key_state" where
  "spawn_key down = \<lparr>KEY_ESCAPE = False, KEY_W = False, KEY_S = False, KEY_A = False,
                      KEY_D = False, KEY_E = down\<rparr>"

definition initial_globals :: "Camera \<Rightarrow> program_state" where
  "initial_globals cam =
     \<lparr>camera = cam, deltaTime = 0, lastFrame = 0, spawnedSuperellipsoids = [],
      e_pressed_last_frame = False, windowShouldClose = False, cout = [],
      superellipsoidVertices = [], superellipsoidIndices = [], diffuseMap = 0\<rparr>"

section \<open>The vertex formula of the specification\<close>

text \<open>
  The specification's words, to be compared with the loops: \<open>sgnpow(base, exp) =
  sign(base) \<cdot> |base|^exp\<close>, here with the sign function and the real power of
  mathematics (\<open>sgn 0 = 0\<close>, so \<open>sgnpow 0 e = 0\<close>).
\<close>

definition sgnpow :: "real \<Rightarrow> real \<Rightarrow> real" where
  "sgnpow base e = sgn base * \<bar>base\<bar> powr e"

text \<open>
  The vertex formula of the specification at the grid point \<open>(i, j)\<close>, for a value \<open>p\<close> of
  the half turn and a signed power \<open>sp\<close>: \<open>u = -p/2 + (i/stacks)\<cdot>p\<close>,
  \<open>v = -p + (j/slices)\<cdot>2p\<close>, position
  \<open>(a\<cdot>sp(cos u, n1)\<cdot>sp(cos v, n2), b\<cdot>sp(cos u, n1)\<cdot>sp(sin v, n2), c\<cdot>sp(sin u, n1))\<close>,
  normal \<open>normalize(x/a\<^sup>2, y/b\<^sup>2, z/c\<^sup>2)\<close> and texture coordinate \<open>(j/slices, i/stacks)\<close>.
\<close>

definition vertex_formula ::
  "real \<Rightarrow> (real \<Rightarrow> real \<Rightarrow> real) \<Rightarrow> real \<Rightarrow> real \<Rightarrow> real \<Rightarrow> real \<Rightarrow> real
     \<Rightarrow> int \<Rightarrow> int \<Rightarrow> int \<Rightarrow> int \<Rightarrow> Vertex" where
  "vertex_formula p sp a b c n1 n2 stacks slices i j =
     (let u = - p / 2 + (real_of_int i / real_of_int stacks) * p;
          v = - p + (real_of_int j / real_of_int slices) * (2 * p);
          x = a * sp (cos u) n1 * sp (cos v) n2;
          y = b * sp (cos u) n1 * sp (sin v) n2;
          z = c * sp (sin u) n1
      in \<lparr>Position = Vec3 x y z,
          Normal = normalize (Vec3 (x / a\<^sup>2) (y / b\<^sup>2) (z / c\<^sup>2)),
          TexCoords = Vec2 (real_of_int j / real_of_int slices)
                        (real_of_int i / real_of_int stacks)\<rparr>)"


section \<open>What the loops compute\<close>

text \<open>Each loop appends to the vector it is given; what it appends is a map over the range
  of its counter.\<close>

lemma vertex_loop_j_eq:
  "vertex_loop_j a b c n1 n2 stacks slices i u j vertices =
     vertices @ map (grid_vertex a b c n1 n2 stacks slices i u) [j..slices]"
proof (induction a b c n1 n2 stacks slices i u j vertices rule: vertex_loop_j.induct)
  case (1 a b c n1 n2 stacks slices i u j vertices)
  show ?case
  proof (cases "j \<le> slices")
    case True
    then have "[j..slices] = j # [j + 1..slices]"
      by (rule upto_rec1)
    with True "1.IH" show ?thesis
      by (subst vertex_loop_j.simps) simp
  next
    case False
    then show ?thesis
      by (subst vertex_loop_j.simps) simp
  qed
qed

lemma vertex_loop_j_row:
  "vertex_loop_j a b c n1 n2 stacks slices i (stack_angle stacks i) 0 vertices =
     vertices @ vertex_row a b c n1 n2 stacks slices i"
  by (simp add: vertex_loop_j_eq vertex_row_def)

lemma vertex_loop_i_eq:
  "vertex_loop_i a b c n1 n2 stacks slices i vertices =
     vertices @ concat (map (vertex_row a b c n1 n2 stacks slices) [i..stacks])"
proof (induction a b c n1 n2 stacks slices i vertices rule: vertex_loop_i.induct)
  case (1 a b c n1 n2 stacks slices i vertices)
  show ?case
  proof (cases "i \<le> stacks")
    case True
    then have "[i..stacks] = i # [i + 1..stacks]"
      by (rule upto_rec1)
    with True "1.IH" show ?thesis
      by (subst vertex_loop_i.simps) (simp add: vertex_loop_j_row)
  next
    case False
    then show ?thesis
      by (subst vertex_loop_i.simps) simp
  qed
qed

lemma index_loop_j_eq:
  "index_loop_j slices i j indices =
     indices @ concat (map (cell_indices slices i) [j..slices - 1])"
proof (induction slices i j indices rule: index_loop_j.induct)
  case (1 slices i j indices)
  show ?case
  proof (cases "j < slices")
    case True
    then have "[j..slices - 1] = j # [j + 1..slices - 1]"
      by (intro upto_rec1) simp
    with True "1.IH" show ?thesis
      by (subst index_loop_j.simps) simp
  next
    case False
    then show ?thesis
      by (subst index_loop_j.simps) simp
  qed
qed

lemma index_loop_i_eq:
  "index_loop_i stacks slices i indices =
     indices @ concat (map (\<lambda>i. concat (map (cell_indices slices i) [0..slices - 1]))
                         [i..stacks - 1])"
proof (induction stacks slices i indices rule: index_loop_i.induct)
  case (1 stacks slices i indices)
  show ?case
  proof (cases "i < stacks")
    case True
    then have "[i..stacks - 1] = i # [i + 1..stacks - 1]"
      by (intro upto_rec1) simp
    with True "1.IH" show ?thesis
      by (subst index_loop_i.simps) (simp add: index_loop_j_eq)
  next
    case False
    then show ?thesis
      by (subst index_loop_i.simps) simp
  qed
qed


section \<open>Sizes and index bounds\<close>

lemma length_concat_uniform:
  "(\<And>x. x \<in> set xs \<Longrightarrow> length (f x) = n) \<Longrightarrow> length (concat (map f xs)) = length xs * n"
  by (induction xs) simp_all

lemma nth_concat_uniform:
  "(\<And>xs. xs \<in> set xss \<Longrightarrow> length xs = n) \<Longrightarrow> i < length xss \<Longrightarrow> j < n
     \<Longrightarrow> concat xss ! (i * n + j) = xss ! i ! j"
proof (induction xss arbitrary: i)
  case Nil
  then show ?case by simp
next
  case (Cons xs xss)
  have len: "length xs = n"
    using Cons.prems(1) by simp
  show ?case
  proof (cases i)
    case 0
    with len Cons.prems(3) show ?thesis
      by (simp add: nth_append)
  next
    case (Suc i')
    have "concat xss ! (i' * n + j) = xss ! i' ! j"
      using Cons.prems Suc by (intro Cons.IH) simp_all
    with len Suc show ?thesis
      by (simp add: nth_append)
  qed
qed

lemma length_vertex_row: "length (vertex_row a b c n1 n2 stacks slices i) = nat (slices + 1)"
  by (simp add: vertex_row_def)

lemma length_cell_indices: "length (cell_indices slices i j) = 6"
  by (simp add: cell_indices_def Let_def)

lemma fst_generateSuperellipsoid:
  "fst (generateSuperellipsoid vertices indices a b c n1 n2 stacks slices) =
     concat (map (vertex_row a b c n1 n2 stacks slices) [0..stacks])"
  by (simp add: generateSuperellipsoid_def vertex_loop_i_eq)

lemma snd_generateSuperellipsoid:
  "snd (generateSuperellipsoid vertices indices a b c n1 n2 stacks slices) =
     concat (map (\<lambda>i. concat (map (cell_indices slices i) [0..slices - 1])) [0..stacks - 1])"
  by (simp add: generateSuperellipsoid_def index_loop_i_eq)

lemma length_vertices:
  "length (fst (generateSuperellipsoid vertices indices a b c n1 n2 stacks slices)) =
     nat (stacks + 1) * nat (slices + 1)"
  by (simp add: fst_generateSuperellipsoid length_concat_uniform [where n = "nat (slices + 1)"]
      length_vertex_row)

lemma length_indices:
  "length (snd (generateSuperellipsoid vertices indices a b c n1 n2 stacks slices)) =
     nat stacks * (nat slices * 6)"
proof -
  have row: "length (concat (map (cell_indices slices i) [0..slices - 1])) = nat slices * 6" for i
    by (simp add: length_concat_uniform [where n = 6] length_cell_indices)
  show ?thesis
    by (simp add: snd_generateSuperellipsoid
        length_concat_uniform [where n = "nat slices * 6"] row)
qed

lemma cell_indices_bounds:
  assumes "0 \<le> i" "i < stacks" "0 \<le> j" "j < slices" "k \<in> set (cell_indices slices i j)"
  shows "0 \<le> k \<and> k < (stacks + 1) * (slices + 1)"
proof -
  let ?first = "i * (slices + 1) + j"
  have nonneg: "0 \<le> i * (slices + 1)"
    using assms by simp
  have "(i + 1) * (slices + 1) \<le> stacks * (slices + 1)"
    using assms by (intro mult_right_mono) simp_all
  then have top: "?first + slices + 1 + 1 < (stacks + 1) * (slices + 1)"
    using assms by (simp add: algebra_simps)
  have "k \<in> {?first, ?first + slices + 1, ?first + 1, ?first + slices + 1 + 1}"
    using assms(5) by (auto simp: cell_indices_def Let_def)
  with nonneg top assms show ?thesis
    by auto
qed

lemma indices_bounds:
  assumes "k \<in> set (snd (generateSuperellipsoid vertices indices a b c n1 n2 stacks slices))"
  shows "0 \<le> k \<and> k < (stacks + 1) * (slices + 1)"
proof -
  from assms obtain i j where "0 \<le> i" "i < stacks" "0 \<le> j" "j < slices"
      "k \<in> set (cell_indices slices i j)"
    by (auto simp: snd_generateSuperellipsoid)
  then show ?thesis
    by (rule cell_indices_bounds)
qed

text \<open>
  Claim C1. For \<open>stacks \<ge> 1\<close>, \<open>slices \<ge> 1\<close> and any shape parameters, whatever the two
  vectors held before the call, \<open>generateSuperellipsoid\<close> returns \<open>(stacks+1)*(slices+1)\<close>
  vertices and \<open>6*stacks*slices\<close> indices, every index is at least 0 and below the number
  of vertices, and a second call with the same \<open>stacks\<close> and \<open>slices\<close> but other shape
  parameters returns vectors of the same two lengths.
\<close>

theorem generateSuperellipsoid_sizes:
  assumes "1 \<le> stacks" and "1 \<le> slices"
  shows "int (length (fst (generateSuperellipsoid vertices indices a b c n1 n2 stacks slices)))
           = (stacks + 1) * (slices + 1)
       \<and> int (length (snd (generateSuperellipsoid vertices indices a b c n1 n2 stacks slices)))
           = 6 * stacks * slices
       \<and> (\<forall>k \<in> set (snd (generateSuperellipsoid vertices indices a b c n1 n2 stacks slices)).
            0 \<le> k \<and>
            k < int (length (fst (generateSuperellipsoid vertices indices a b c n1 n2 stacks slices))))
       \<and> length (fst (generateSuperellipsoid vertices' indices' a' b' c' n1' n2' stacks slices))
           = length (fst (generateSuperellipsoid vertices indices a b c n1 n2 stacks slices))
       \<and> length (snd (generateSuperellipsoid vertices' indices' a' b' c' n1' n2' stacks slices))
           = length (snd (generateSuperellipsoid vertices indices a b c n1 n2 stacks slices))"
proof -
  have nv: "int (length (fst (generateSuperellipsoid vertices indices a b c n1 n2 stacks slices)))
              = (stacks + 1) * (slices + 1)"
    using assms by (simp add: length_vertices)
  have ni: "int (length (snd (generateSuperellipsoid vertices indices a b c n1 n2 stacks slices)))
              = 6 * stacks * slices"
    using assms by (simp add: length_indices)
  have bound: "\<forall>k \<in> set (snd (generateSuperellipsoid vertices indices a b c n1 n2 stacks slices)).
            0 \<le> k \<and>
            k < int (length (fst (generateSuperellipsoid vertices indices a b c n1 n2 stacks slices)))"
    unfolding nv using indices_bounds by blast
  have same_v: "length (fst (generateSuperellipsoid vertices' indices' a' b' c' n1' n2' stacks slices))
           = length (fst (generateSuperellipsoid vertices indices a b c n1 n2 stacks slices))"
    by (simp only: length_vertices)
  have same_i: "length (snd (generateSuperellipsoid vertices' indices' a' b' c' n1' n2' stacks slices))
           = length (snd (generateSuperellipsoid vertices indices a b c n1 n2 stacks slices))"
    by (simp only: length_indices)
  from nv ni bound same_v same_i show ?thesis
    by (intro conjI)
qed

theorem generateSuperellipsoid_sizes_witness:
  "int (length (fst (generateSuperellipsoid [] [] 1 1 1 1 1 2 3))) = 12
   \<and> int (length (snd (generateSuperellipsoid [] [] 1 1 1 1 1 2 3))) = 36
   \<and> list_all (\<lambda>k. 0 \<le> k \<and> k < 12) (snd (generateSuperellipsoid [] [] 1 1 1 1 1 2 3))
   \<and> length (fst (generateSuperellipsoid [] [] 2 3 4 (1/2) 2 2 3))
       = length (fst (generateSuperellipsoid [] [] 1 1 1 1 1 2 3))
   \<and> length (snd (generateSuperellipsoid [] [] 2 3 4 (1/2) 2 2 3))
       = length (snd (generateSuperellipsoid [] [] 1 1 1 1 1 2 3))"
  using generateSuperellipsoid_sizes [where stacks = 2 and slices = 3 and vertices = "[]"
      and indices = "[]" and a = 1 and b = 1 and c = 1 and ?n1.0 = 1 and ?n2.0 = 1
      and vertices' = "[]" and indices' = "[]" and a' = 2 and b' = 3 and c' = 4
      and n1' = "1/2" and n2' = 2]
  by (auto simp: list_all_iff)

text \<open>
  Where the integers of the model are those of the program: when the number of vertices
  fits an \<^verbatim>\<open>int\<close>, so do the final values \<open>stacks + 1\<close> and \<open>slices + 1\<close> of the loop
  counters and every index value computed (the intermediate values of a cell are sums of
  integers that are not negative, hence below its largest index). No \<^verbatim>\<open>int\<close> operation
  of the loops overflows then, and the conversion to \<^verbatim>\<open>unsigned int\<close> changes nothing.
\<close>

lemma indices_fit_int:
  assumes "1 \<le> stacks" and "1 \<le> slices" and "(stacks + 1) * (slices + 1) \<le> 2 ^ 31 - 1"
    and "k \<in> set (snd (generateSuperellipsoid vertices indices a b c n1 n2 stacks slices))"
  shows "stacks + 1 \<le> 2 ^ 31 - 1 \<and> slices + 1 \<le> 2 ^ 31 - 1 \<and> 0 \<le> k \<and> k < 2 ^ 31 - 1"
proof -
  have "(stacks + 1) * 1 \<le> (stacks + 1) * (slices + 1)"
    using assms(1,2) by (intro mult_left_mono) simp_all
  moreover have "1 * (slices + 1) \<le> (stacks + 1) * (slices + 1)"
    using assms(1,2) by (intro mult_right_mono) simp_all
  ultimately show ?thesis
    using indices_bounds [OF assms(4)] assms(3) by simp
qed

section \<open>The triangulation\<close>

lemma concat_rows_product:
  "concat (map (\<lambda>i. concat (map (f i) ys)) xs) =
     concat (map (\<lambda>(i, j). f i j) (List.product xs ys))"
  by (induction xs) (simp_all add: comp_def)

text \<open>
  Claim C3. The index list returned is the concatenation, over the cells \<open>(i, j)\<close> with
  \<open>0 \<le> i < stacks\<close> and \<open>0 \<le> j < slices\<close> in row-major order (\<open>i\<close> outer, \<open>j\<close> inner), of
  the six indices \<open>first, second, first+1, second, second+1, first+1\<close> with
  \<open>first = i*(slices+1)+j\<close> and \<open>second = first+slices+1\<close>. This holds for all \<open>stacks\<close>
  and \<open>slices\<close>, in particular for those that are at least 1.
\<close>

theorem generateSuperellipsoid_indices:
  "snd (generateSuperellipsoid vertices indices a b c n1 n2 stacks slices) =
     concat (map (\<lambda>(i, j).
                    (let first = i * (slices + 1) + j;
                         second = first + slices + 1
                     in [first, second, first + 1, second, second + 1, first + 1]))
              (List.product [0..stacks - 1] [0..slices - 1]))"
  unfolding snd_generateSuperellipsoid concat_rows_product cell_indices_def
  by (rule refl)

text \<open>
  Claim C10. The index list depends on \<open>stacks\<close> and \<open>slices\<close> only: two calls with the
  same \<open>stacks\<close> and \<open>slices\<close> return the same index list, whatever the shape parameters
  and whatever the vectors held before each call.
\<close>

theorem indices_depend_on_grid_only:
  "snd (generateSuperellipsoid vertices indices a b c n1 n2 stacks slices) =
   snd (generateSuperellipsoid vertices' indices' a' b' c' n1' n2' stacks slices)"
  by (simp only: snd_generateSuperellipsoid)

text \<open>The index lists of a grid of one cell and of a grid of two by two cells.\<close>

lemma indices_1x1:
  "snd (generateSuperellipsoid vertices indices a b c n1 n2 1 1) = [0, 2, 1, 2, 3, 1]"
  by (simp add: snd_generateSuperellipsoid cell_indices_def upto.simps)

lemma indices_2x2:
  "snd (generateSuperellipsoid vertices indices a b c n1 n2 2 2) =
     [0, 3, 1, 3, 4, 1,  1, 4, 2, 4, 5, 2,  3, 6, 4, 6, 7, 4,  4, 7, 5, 7, 8, 5]"
  by (simp add: snd_generateSuperellipsoid cell_indices_def upto.simps)


section \<open>The vertex at a grid point\<close>


text \<open>At base 0 the program's \<open>powe\<close> is 1 for the exponent 0 (its \<open>sgn\<close> is 1 at 0 and
  \<^verbatim>\<open>pow(0, 0)\<close> is 1), where the mathematical \<open>sgnpow\<close> is 0.\<close>

lemma powe_at_zero: "powe 0 e = (if e = 0 then 1 else 0)" and sgnpow_at_zero: "sgnpow 0 e = 0"
  by (simp_all add: powe_def sgn_f_def std_pow_def sgnpow_def)

lemma powe_one: "powe base 1 = base"
  by (simp add: powe_def sgn_f_def std_pow_def)

lemma nth_vertices:
  assumes "0 \<le> i" "i \<le> stacks" "0 \<le> j" "j \<le> slices"
  shows "fst (generateSuperellipsoid vertices indices a b c n1 n2 stacks slices)
           ! nat (i * (slices + 1) + j) =
         grid_vertex a b c n1 n2 stacks slices i (stack_angle stacks i) j"
proof -
  let ?rows = "map (vertex_row a b c n1 n2 stacks slices) [0..stacks]"
  have idx: "nat (i * (slices + 1) + j) = nat i * nat (slices + 1) + nat j"
    using assms by (simp add: nat_add_distrib nat_mult_distrib)
  have "concat ?rows ! (nat i * nat (slices + 1) + nat j) = ?rows ! nat i ! nat j"
    using assms by (intro nth_concat_uniform) (auto simp: length_vertex_row)
  also have "?rows ! nat i = vertex_row a b c n1 n2 stacks slices i"
    using assms by simp
  also have "\<dots> ! nat j = grid_vertex a b c n1 n2 stacks slices i (stack_angle stacks i) j"
    using assms by (simp add: vertex_row_def)
  finally show ?thesis
    by (simp add: fst_generateSuperellipsoid idx)
qed
















text \<open>
  The centre of a grid of two stacks and two slices, where \<open>u = v = 0\<close> and both sines
  are 0: for positive exponents the position is \<open>(a, 0, 0)\<close>; for the exponents 0 the
  program's position is \<open>(a, b, c)\<close>, which the mathematical \<open>sgnpow\<close> would not give.
\<close>

lemma centre_2x2:
  assumes "0 < n1" and "0 < n2"
  shows "Position (fst (generateSuperellipsoid vertices indices a b c n1 n2 2 2) ! 4) = Vec3 a 0 0"
  using nth_vertices [of 1 2 1 2 vertices indices a b c n1 n2] assms
  by (simp add: grid_vertex_def Let_def stack_angle_def slice_angle_def powe_def sgn_f_def
      std_pow_def)

lemma centre_2x2_exponents_zero:
  "Position (fst (generateSuperellipsoid vertices indices a b c 0 0 2 2) ! 4) = Vec3 a b c"
  "Position (vertex_formula p sgnpow a b c 0 0 2 2 1 1) = Vec3 a 0 0"
  using nth_vertices [of 1 2 1 2 vertices indices a b c 0 0]
  by (simp_all add: grid_vertex_def vertex_formula_def Let_def stack_angle_def slice_angle_def
      powe_def sgn_f_def std_pow_def sgnpow_def)

text \<open>The texture coordinates of a grid of one stack and two slices, in the order of the
  vertex vector.\<close>

lemma texcoords_1x2:
  "map TexCoords (fst (generateSuperellipsoid vertices indices a b c n1 n2 1 2)) =
     [Vec2 0 0, Vec2 (1/2) 0, Vec2 1 0, Vec2 0 1, Vec2 (1/2) 1, Vec2 1 1]"
  by (simp add: fst_generateSuperellipsoid vertex_row_def grid_vertex_def Let_def upto.simps)

section \<open>The unit sphere\<close>

lemma unit_sphere_point:
  "vec3_length (Vec3 (cos u * cos v) (cos u * sin v) (sin u)) = 1"
proof -
  have v1: "(cos v)\<^sup>2 + (sin v)\<^sup>2 = 1" and u1: "(cos u)\<^sup>2 + (sin u)\<^sup>2 = 1"
    by simp_all
  have "(cos u * cos v)\<^sup>2 + (cos u * sin v)\<^sup>2 + (sin u)\<^sup>2 =
          (cos u)\<^sup>2 * ((cos v)\<^sup>2 + (sin v)\<^sup>2) + (sin u)\<^sup>2"
    by (simp only: power_mult_distrib distrib_left)
  also have "\<dots> = 1"
    by (simp only: v1 u1 mult_1_right)
  finally show ?thesis
    by (simp add: vec3_length_def dot_def power2_eq_square)
qed

lemma grid_vertex_unit:
  "vec3_length (Position (grid_vertex 1 1 1 1 1 stacks slices i u j)) = 1"
  by (simp add: grid_vertex_def Let_def powe_one unit_sphere_point)

text \<open>
  Claim C4. For \<open>stacks, slices \<ge> 1\<close>, with \<open>a = b = c = 1\<close> and \<open>n1 = n2 = 1\<close> every
  vertex position returned lies at distance exactly 1 from the origin (in real
  arithmetic).
\<close>

theorem unit_sphere_vertices:
  assumes "1 \<le> stacks" and "1 \<le> slices"
  shows "\<forall>p \<in> set (fst (generateSuperellipsoid vertices indices 1 1 1 1 1 stacks slices)).
           vec3_length (Position p) = 1"
  by (auto simp: fst_generateSuperellipsoid vertex_row_def grid_vertex_unit)

theorem unit_sphere_vertices_witness:
  "list_all (\<lambda>p. vec3_length (Position p) = 1)
     (fst (generateSuperellipsoid [] [] 1 1 1 1 1 2 2))
   \<and> length (fst (generateSuperellipsoid [] [] 1 1 1 1 1 2 2)) = 9"
  using unit_sphere_vertices [where stacks = 2 and slices = 2 and vertices = "[]"
      and indices = "[]"]
  by (simp add: list_all_iff length_vertices)

section \<open>Input, frames and the render loop\<close>

text \<open>What one call of \<open>processInput\<close>, one frame and the render loop do to the spawn
  latch, the registry of spawned positions, the texture handle and the output.\<close>

lemma processInput_latch:
  "e_pressed_last_frame (processInput ProcessKeyboard window st) = KEY_E window"
  by (simp add: processInput_def Let_def)

lemma processInput_spawned:
  "spawnedSuperellipsoids (processInput ProcessKeyboard window st) =
     spawnedSuperellipsoids st @
       (if KEY_E window \<and> \<not> e_pressed_last_frame st
        then [spawn_pos (camera (processInput ProcessKeyboard window st))] else [])"
  by (simp add: processInput_def Let_def spawn_pos_def)



lemma feed_samples_spawned_prefix:
  "prefix (spawnedSuperellipsoids st) (spawnedSuperellipsoids (feed_samples ProcessKeyboard samples st))"
proof (induction samples arbitrary: st)
  case Nil
  show ?case by simp
next
  case (Cons s samples)
  obtain window cam dt where s: "s = (window, cam, dt)"
    by (cases s)
  let ?st = "processInput ProcessKeyboard window (st\<lparr>camera := cam, deltaTime := dt\<rparr>)"
  have "prefix (spawnedSuperellipsoids st) (spawnedSuperellipsoids ?st)"
    by (simp add: processInput_spawned)
  also have "prefix (spawnedSuperellipsoids ?st)
               (spawnedSuperellipsoids (feed_samples ProcessKeyboard samples ?st))"
    by (rule Cons.IH)
  finally show ?case
    by (simp add: s)
qed

lemma frame_spawned:
  "spawnedSuperellipsoids (fst (frame ProcessKeyboard inp st)) =
     spawnedSuperellipsoids (processInput ProcessKeyboard (keys inp)
       (st\<lparr>deltaTime := currentFrame inp - lastFrame st, lastFrame := currentFrame inp\<rparr>))"
  by (simp add: frame_def Let_def split_def)




lemma translation_draw_spawned: "map translation (draw_spawned clock k n positions) = positions"
  by (induction positions arbitrary: k) simp_all

lemma frame_draws:
  "map translation (draws (snd (frame ProcessKeyboard inp st))) =
     Vec3 0 0 0 # spawnedSuperellipsoids (fst (frame ProcessKeyboard inp st))"
  by (simp add: frame_def Let_def split_def translation_draw_spawned)

lemma frame_spawned_prefix:
  "prefix (spawnedSuperellipsoids st) (spawnedSuperellipsoids (fst (frame ProcessKeyboard inp st)))"
  by (simp add: frame_spawned processInput_spawned)

lemma render_loop_step:
  "\<not> windowShouldClose st \<Longrightarrow>
   render_loop ProcessKeyboard (inp # rest) st shown =
     render_loop ProcessKeyboard rest (fst (frame ProcessKeyboard inp st))
       (shown @ [snd (frame ProcessKeyboard inp st)])"
  by (simp add: split_def Let_def)

lemma render_loop_stop:
  "windowShouldClose st \<Longrightarrow> render_loop ProcessKeyboard (inp # rest) st shown = (st, shown)"
  by simp

lemma render_loop_spawned_prefix:
  "prefix (spawnedSuperellipsoids st)
     (spawnedSuperellipsoids (fst (render_loop ProcessKeyboard inputs st shown)))"
proof (induction inputs arbitrary: st shown)
  case Nil
  show ?case by simp
next
  case (Cons inp inputs)
  show ?case
  proof (cases "windowShouldClose st")
    case True
    then show ?thesis by simp
  next
    case False
    let ?st = "fst (frame ProcessKeyboard inp st)"
    let ?out = "snd (frame ProcessKeyboard inp st)"
    have "prefix (spawnedSuperellipsoids st) (spawnedSuperellipsoids ?st)"
      by (rule frame_spawned_prefix)
    also have "prefix (spawnedSuperellipsoids ?st)
        (spawnedSuperellipsoids (fst (render_loop ProcessKeyboard inputs ?st (shown @ [?out]))))"
      by (rule Cons.IH)
    finally show ?thesis
      by (simp only: render_loop_step [OF False])
  qed
qed






section \<open>Spawning on the rising edge\<close>

text \<open>
  Claim C5. Five calls of \<open>processInput\<close> see the spawn key in the states released,
  pressed, pressed, released, pressed, starting with the latch released; the other keys,
  and the camera and \<open>deltaTime\<close> in effect at each call, are arbitrary. \<open>s1\<close>, ..., \<open>s5\<close>
  are the states after each call. The registry is unchanged by calls 1, 3 and 4; call 2
  and call 5 each append one position, which is the camera position plus the camera
  front direction times 2, taken from the camera of that call (as the movement keys of
  the same call leave it). The latch is the sampled state after every call.
\<close>

theorem spawn_rising_edge:
  fixes ProcessKeyboard :: "Camera_Movement \<Rightarrow> real \<Rightarrow> Camera \<Rightarrow> Camera"
    and st0 :: program_state
    and w1 w2 w3 w4 w5 :: key_state
    and c1 c2 c3 c4 c5 :: Camera
    and d1 d2 d3 d4 d5 :: real
  defines "s1 \<equiv> feed_samples ProcessKeyboard [(w1, c1, d1)] st0"
    and "s2 \<equiv> feed_samples ProcessKeyboard [(w1, c1, d1), (w2, c2, d2)] st0"
    and "s3 \<equiv> feed_samples ProcessKeyboard [(w1, c1, d1), (w2, c2, d2), (w3, c3, d3)] st0"
    and "s4 \<equiv> feed_samples ProcessKeyboard
                [(w1, c1, d1), (w2, c2, d2), (w3, c3, d3), (w4, c4, d4)] st0"
    and "s5 \<equiv> feed_samples ProcessKeyboard
                [(w1, c1, d1), (w2, c2, d2), (w3, c3, d3), (w4, c4, d4), (w5, c5, d5)] st0"
  assumes "\<not> e_pressed_last_frame st0"
    and "\<not> KEY_E w1" and "KEY_E w2" and "KEY_E w3" and "\<not> KEY_E w4" and "KEY_E w5"
  shows "spawnedSuperellipsoids s1 = spawnedSuperellipsoids st0
       \<and> spawnedSuperellipsoids s2 = spawnedSuperellipsoids st0 @ [spawn_pos (camera s2)]
       \<and> spawnedSuperellipsoids s3 = spawnedSuperellipsoids s2
       \<and> spawnedSuperellipsoids s4 = spawnedSuperellipsoids s2
       \<and> spawnedSuperellipsoids s5 =
           spawnedSuperellipsoids st0 @ [spawn_pos (camera s2), spawn_pos (camera s5)]
       \<and> e_pressed_last_frame (processInput ProcessKeyboard w st) = KEY_E w"
  using assms(6-) unfolding s1_def s2_def s3_def s4_def s5_def
  by (simp add: processInput_spawned processInput_latch)

theorem spawn_rising_edge_witness:
  "spawnedSuperellipsoids
     (feed_samples (\<lambda>direction dt cam. cam)
        [(spawn_key False, \<lparr>Camera.Position = Vec3 0 0 3, Front = Vec3 0 0 (- 1)\<rparr>, 0),
         (spawn_key True, \<lparr>Camera.Position = Vec3 1 0 3, Front = Vec3 0 0 (- 1)\<rparr>, 0),
         (spawn_key True, \<lparr>Camera.Position = Vec3 2 0 3, Front = Vec3 0 0 (- 1)\<rparr>, 0),
         (spawn_key False, \<lparr>Camera.Position = Vec3 3 0 3, Front = Vec3 0 0 (- 1)\<rparr>, 0),
         (spawn_key True, \<lparr>Camera.Position = Vec3 4 0 3, Front = Vec3 1 0 0\<rparr>, 0)]
        (initial_globals \<lparr>Camera.Position = Vec3 0 0 3, Front = Vec3 0 0 (- 1)\<rparr>))
   = [Vec3 1 0 1, Vec3 6 0 3]"
  using spawn_rising_edge [where ProcessKeyboard = "\<lambda>direction dt cam. cam"
      and st0 = "initial_globals \<lparr>Camera.Position = Vec3 0 0 3, Front = Vec3 0 0 (- 1)\<rparr>"
      and ?w1.0 = "spawn_key False" and ?w2.0 = "spawn_key True" and ?w3.0 = "spawn_key True"
      and ?w4.0 = "spawn_key False" and ?w5.0 = "spawn_key True"
      and ?c1.0 = "\<lparr>Camera.Position = Vec3 0 0 3, Front = Vec3 0 0 (- 1)\<rparr>"
      and ?c2.0 = "\<lparr>Camera.Position = Vec3 1 0 3, Front = Vec3 0 0 (- 1)\<rparr>"
      and ?c3.0 = "\<lparr>Camera.Position = Vec3 2 0 3, Front = Vec3 0 0 (- 1)\<rparr>"
      and ?c4.0 = "\<lparr>Camera.Position = Vec3 3 0 3, Front = Vec3 0 0 (- 1)\<rparr>"
      and ?c5.0 = "\<lparr>Camera.Position = Vec3 4 0 3, Front = Vec3 1 0 0\<rparr>"
      and ?d1.0 = 0 and ?d2.0 = 0 and ?d3.0 = 0 and ?d4.0 = 0 and ?d5.0 = 0]
  by (simp add: spawn_key_def initial_globals_def processInput_def spawn_pos_def
      vec3_add_def vec3_scale_def)

section \<open>The registry only grows\<close>

text \<open>
  Claim C7. Two spawns, at \<open>P1\<close> in the first call and \<open>P2\<close> in the third (the key being
  released in between), make the loop over the registry visit \<open>P1\<close> before \<open>P2\<close>, after
  what was there before. A second pass over the same registry, at other clock readings,
  visits the same positions in the same order, and so does the pass inside a frame (whose
  first draw is the morphing object at the origin). Over any run of \<open>processInput\<close> calls
  and over any run of the render loop the registry before is a prefix of the registry
  after: nothing recorded is removed or changed.
\<close>

theorem registry_append_only:
  fixes ProcessKeyboard :: "Camera_Movement \<Rightarrow> real \<Rightarrow> Camera \<Rightarrow> Camera"
    and st0 :: program_state
    and w1 w2 w3 :: key_state
    and c1 c2 c3 :: Camera
    and d1 d2 d3 :: real
  defines "s1 \<equiv> feed_samples ProcessKeyboard [(w1, c1, d1)] st0"
    and "s3 \<equiv> feed_samples ProcessKeyboard [(w1, c1, d1), (w2, c2, d2), (w3, c3, d3)] st0"
  assumes "\<not> e_pressed_last_frame st0" and "KEY_E w1" and "\<not> KEY_E w2" and "KEY_E w3"
  shows "map translation (draw_spawned clock 0 n (spawnedSuperellipsoids s3)) =
           spawnedSuperellipsoids st0 @ [spawn_pos (camera s1), spawn_pos (camera s3)]
       \<and> map translation (draw_spawned clock' k' n' (spawnedSuperellipsoids s3)) =
           map translation (draw_spawned clock 0 n (spawnedSuperellipsoids s3))
       \<and> map translation (draws (snd (frame ProcessKeyboard inp st))) =
           Vec3 0 0 0 # spawnedSuperellipsoids (fst (frame ProcessKeyboard inp st))
       \<and> prefix (spawnedSuperellipsoids st)
           (spawnedSuperellipsoids (feed_samples ProcessKeyboard samples st))
       \<and> prefix (spawnedSuperellipsoids st)
           (spawnedSuperellipsoids (fst (render_loop ProcessKeyboard inputs st shown)))"
proof -
  have "spawnedSuperellipsoids s3 =
          spawnedSuperellipsoids st0 @ [spawn_pos (camera s1), spawn_pos (camera s3)]"
    using assms(3-) unfolding s1_def s3_def
    by (simp add: processInput_spawned processInput_latch)
  then show ?thesis
    by (simp only: translation_draw_spawned frame_draws feed_samples_spawned_prefix
        render_loop_spawned_prefix simp_thms)
qed

theorem registry_append_only_witness:
  "map translation
     (draw_spawned (\<lambda>k. 0) 0 6
        (spawnedSuperellipsoids
          (feed_samples (\<lambda>direction dt cam. cam)
            [(spawn_key True, \<lparr>Camera.Position = Vec3 1 0 3, Front = Vec3 0 0 (- 1)\<rparr>, 0),
             (spawn_key False, \<lparr>Camera.Position = Vec3 2 0 3, Front = Vec3 0 0 (- 1)\<rparr>, 0),
             (spawn_key True, \<lparr>Camera.Position = Vec3 4 0 3, Front = Vec3 1 0 0\<rparr>, 0)]
            (initial_globals \<lparr>Camera.Position = Vec3 0 0 3, Front = Vec3 0 0 (- 1)\<rparr>))))
   = [Vec3 1 0 1, Vec3 6 0 3]"
  using registry_append_only [where ProcessKeyboard = "\<lambda>direction dt cam. cam"
      and st0 = "initial_globals \<lparr>Camera.Position = Vec3 0 0 3, Front = Vec3 0 0 (- 1)\<rparr>"
      and ?w1.0 = "spawn_key True" and ?w2.0 = "spawn_key False" and ?w3.0 = "spawn_key True"
      and ?c1.0 = "\<lparr>Camera.Position = Vec3 1 0 3, Front = Vec3 0 0 (- 1)\<rparr>"
      and ?c2.0 = "\<lparr>Camera.Position = Vec3 2 0 3, Front = Vec3 0 0 (- 1)\<rparr>"
      and ?c3.0 = "\<lparr>Camera.Position = Vec3 4 0 3, Front = Vec3 1 0 0\<rparr>"
      and ?d1.0 = 0 and ?d2.0 = 0 and ?d3.0 = 0 and clock = "\<lambda>k. 0" and n = 6]
  by (simp add: spawn_key_def initial_globals_def processInput_def spawn_pos_def
      vec3_add_def vec3_scale_def)

section \<open>The morph parameters\<close>

text \<open>
  Claim C6. The two exponents computed in the frame loop are the functions
  \<open>0.2 + 1.8*(0.5 + 0.5*sin(1.2*t))\<close> and \<open>0.2 + 1.8*(0.5 + 0.5*cos(0.8*t))\<close>; both lie in
  \<open>[0.2, 2.0]\<close> for every real \<open>t\<close>, both are continuous, and at \<open>t = 0\<close> they are \<open>1.1\<close>
  and \<open>2.0\<close>.
\<close>

theorem morph_parameters:
  "0.2 \<le> morph_n1 t \<and> morph_n1 t \<le> 2.0 \<and> 0.2 \<le> morph_n2 t \<and> morph_n2 t \<le> 2.0
   \<and> continuous_on UNIV morph_n1 \<and> continuous_on UNIV morph_n2
   \<and> morph_n1 t = 0.2 + 1.8 * (0.5 + 0.5 * sin (1.2 * t))
   \<and> morph_n2 t = 0.2 + 1.8 * (0.5 + 0.5 * cos (0.8 * t))
   \<and> morph_n1 0 = 1.1 \<and> morph_n2 0 = 2.0"
proof -
  have range: "0.2 \<le> 0.2 + 1.8 * (y * 0.5 + 0.5) \<and> 0.2 + 1.8 * (y * 0.5 + 0.5) \<le> 2.0"
    if "- 1 \<le> y" and "y \<le> 1" for y :: real
    using that by (simp add: field_simps)
  have b1: "0.2 \<le> morph_n1 t \<and> morph_n1 t \<le> 2.0"
    unfolding morph_n1_def by (rule range [OF sin_ge_minus_one sin_le_one])
  have b2: "0.2 \<le> morph_n2 t \<and> morph_n2 t \<le> 2.0"
    unfolding morph_n2_def by (rule range [OF cos_ge_minus_one cos_le_one])
  have c1: "continuous_on UNIV morph_n1"
    unfolding morph_n1_def [abs_def] by (intro continuous_intros)
  have c2: "continuous_on UNIV morph_n2"
    unfolding morph_n2_def [abs_def] by (intro continuous_intros)
  have f1: "morph_n1 t = 0.2 + 1.8 * (0.5 + 0.5 * sin (1.2 * t))"
    by (simp add: morph_n1_def mult.commute)
  have f2: "morph_n2 t = 0.2 + 1.8 * (0.5 + 0.5 * cos (0.8 * t))"
    by (simp add: morph_n2_def mult.commute)
  have z: "morph_n1 0 = 1.1" "morph_n2 0 = 2.0"
    by (simp_all add: morph_n1_def morph_n2_def)
  from b1 b2 c1 c2 f1 f2 z show ?thesis
    by (intro conjI) simp_all
qed

section \<open>Determinism\<close>

lemma generateSuperellipsoid_clears:
  "generateSuperellipsoid vertices indices a b c n1 n2 stacks slices =
   generateSuperellipsoid [] [] a b c n1 n2 stacks slices"
  by (simp add: generateSuperellipsoid_def)

lemma frame_mesh:
  "superellipsoidVertices (fst (frame ProcessKeyboard inp st)) =
     fst (generateSuperellipsoid [] [] 1 1 1
            (morph_n1 (morph_time inp)) (morph_n2 (morph_time inp)) 64 64)
   \<and> superellipsoidIndices (fst (frame ProcessKeyboard inp st)) =
     snd (generateSuperellipsoid [] [] 1 1 1
            (morph_n1 (morph_time inp)) (morph_n2 (morph_time inp)) 64 64)"
  by (simp add: frame_def Let_def split_def generateSuperellipsoid_clears [of "superellipsoidVertices _"])

text \<open>
  Claim C8. Two calls of \<open>generateSuperellipsoid\<close> with the same arguments return the same
  vertex and index vectors, whatever the two vectors held before each call; so the mesh
  left by a frame is the mesh of a call on empty vectors and does not depend on the state
  the frame started in.
\<close>

theorem generateSuperellipsoid_deterministic:
  "generateSuperellipsoid vertices indices a b c n1 n2 stacks slices =
   generateSuperellipsoid vertices' indices' a b c n1 n2 stacks slices
   \<and> generateSuperellipsoid vertices indices a b c n1 n2 stacks slices =
     generateSuperellipsoid [] [] a b c n1 n2 stacks slices
   \<and> superellipsoidVertices (fst (frame ProcessKeyboard inp st)) =
     superellipsoidVertices (fst (frame ProcessKeyboard' inp st'))
   \<and> superellipsoidIndices (fst (frame ProcessKeyboard inp st)) =
     superellipsoidIndices (fst (frame ProcessKeyboard' inp st'))"
  by (simp only: frame_mesh generateSuperellipsoid_clears [of vertices indices]
      generateSuperellipsoid_clears [of vertices' indices'] simp_thms)

section \<open>A texture that fails to load\<close>


end
